theory Spec2Isabelle
  imports Complex_Main
begin

section \<open>Data model of \<^verbatim>\<open>netbox/dcim/models.py\<close>\<close>

text \<open>
  The two rack faces, \<^verbatim>\<open>RACK_FACE_FRONT = 0\<close> and \<^verbatim>\<open>RACK_FACE_REAR = 1\<close>. A nullable
  face field is a \<open>face option\<close>.
\<close>

datatype face = RACK_FACE_FRONT | RACK_FACE_REAR

text \<open>
  The exceptions the modelled code can raise. A \<^verbatim>\<open>ValidationError({field: text})\<close> keeps
  its field name; the formatted text is abstracted to a \<open>message\<close> that keeps the numbers
  the text is formatted with.
\<close>

datatype message =
    FaceRequired
  | ChildFace
  | ChildPosition
  | PositionUnavailable nat nat
  | RackTooShort int
  | InsufficientSpace nat nat
  | MustDeleteTemplates
  | ChildMustBe0U

datatype error =
    ValueError
  | KeyError
  | TypeError
  | ZeroDivisionError
  | OverflowError
  | IntegrityError
  | DataError
  | ValidationError string message

text \<open>
  \<^verbatim>\<open>class Rack\<close>: the primary key (\<open>None\<close> before the first save), \<^verbatim>\<open>u_height\<close> and
  \<^verbatim>\<open>desc_units\<close>. The fields that no modelled method reads are left out.
\<close>

record rack =
  rack_pk :: "nat option"
  rack_u_height :: nat
  desc_units :: bool

text \<open>
  \<^verbatim>\<open>class DeviceType\<close>. \<open>subdevice_role\<close> is the \<^verbatim>\<open>NullBooleanField\<close>:
  \<^verbatim>\<open>SUBDEVICE_ROLE_PARENT = True\<close>, \<^verbatim>\<open>SUBDEVICE_ROLE_CHILD = False\<close>, \<open>None\<close> for neither.
  \<open>original_u_height\<close> is the attribute \<^verbatim>\<open>_original_u_height\<close> that \<^verbatim>\<open>__init__\<close> copies
  from \<^verbatim>\<open>u_height\<close>. The component templates of the type are kept in the record, each
  template by its name (an interface template by name, form factor and
  \<^verbatim>\<open>mgmt_only\<close>).
\<close>

record device_type =
  type_pk :: "nat option"
  type_u_height :: nat
  original_u_height :: nat
  is_full_depth :: bool
  is_console_server :: bool
  is_pdu :: bool
  is_network_device :: bool
  subdevice_role :: "bool option"
  console_port_templates :: "string list"
  cs_port_templates :: "string list"
  power_port_templates :: "string list"
  power_outlet_templates :: "string list"
  interface_templates :: "(string \<times> nat \<times> bool) list"
  device_bay_templates :: "string list"

definition is_parent_device :: "device_type \<Rightarrow> bool" where
  "is_parent_device t = (subdevice_role t = Some True)"

definition is_child_device :: "device_type \<Rightarrow> bool" where
  "is_child_device t = (subdevice_role t = Some False)"

text \<open>
  A stored \<^verbatim>\<open>Device\<close> row as a query returns it, with its two foreign keys resolved to
  the rows they point to (both columns are \<^verbatim>\<open>NOT NULL\<close>). \<open>position\<close> and \<open>face\<close> are
  nullable. The table \<^verbatim>\<open>Device.objects\<close> is a \<open>device list\<close> in the order in which the
  database returns the rows.
\<close>

record device =
  pk :: nat
  device_type :: device_type
  rack :: rack
  position :: "nat option"
  face :: "face option"

text \<open>
  The related manager \<^verbatim>\<open>self.devices\<close> and the filter \<^verbatim>\<open>Device.objects.filter(rack=self)\<close>:
  the rows whose rack key is the key of \<open>self\<close>. A rack without a key has no rows.
\<close>

definition rack_devices :: "rack \<Rightarrow> device list \<Rightarrow> device list" where
  "rack_devices self objects =
     (case rack_pk self of
        None \<Rightarrow> []
      | Some k \<Rightarrow> [d \<leftarrow> objects. rack_pk (rack d) = Some k])"

section \<open>\<^verbatim>\<open>Rack.get_available_units\<close>\<close>

text \<open>
  \<^verbatim>\<open>list.remove(x)\<close> deletes the first occurrence of \<open>x\<close> and raises \<^verbatim>\<open>ValueError\<close> when
  there is none.
\<close>

fun list_remove :: "nat \<Rightarrow> nat list \<Rightarrow> error + nat list" where
  "list_remove x [] = Inl ValueError"
| "list_remove x (y # ys) =
     (if x = y then Inr ys
      else (case list_remove x ys of Inl e \<Rightarrow> Inl e | Inr zs \<Rightarrow> Inr (y # zs)))"

text \<open>
  \<^verbatim>\<open>try: units.remove(u)  except ValueError: pass\<close>. Only \<^verbatim>\<open>ValueError\<close> is caught.
\<close>

definition try_remove :: "nat \<Rightarrow> nat list \<Rightarrow> error + nat list" where
  "try_remove u units =
     (case list_remove u units of
        Inl ValueError \<Rightarrow> Inr units
      | Inl e \<Rightarrow> Inl e
      | Inr units' \<Rightarrow> Inr units')"

text \<open>The inner loop \<^verbatim>\<open>for u in range(d.position, d.position + d.device_type.u_height)\<close>.\<close>

fun remove_units :: "nat list \<Rightarrow> nat list \<Rightarrow> error + nat list" where
  "remove_units [] units = Inr units"
| "remove_units (u # us) units =
     (case try_remove u units of
        Inl e \<Rightarrow> Inl e
      | Inr units' \<Rightarrow> remove_units us units')"

text \<open>
  The test \<^verbatim>\<open>rack_face is None or d.face == rack_face or d.device_type.is_full_depth\<close>.
\<close>

definition consumes :: "face option \<Rightarrow> device \<Rightarrow> bool" where
  "consumes rack_face d =
     (rack_face = None \<or> face d = rack_face \<or> is_full_depth (device_type d))"

text \<open>
  The outer loop \<^verbatim>\<open>for d in devices\<close>. \<^verbatim>\<open>range\<close> on a position that is \<^verbatim>\<open>None\<close> raises
  \<^verbatim>\<open>TypeError\<close>.
\<close>

fun remove_devices :: "face option \<Rightarrow> device list \<Rightarrow> nat list \<Rightarrow> error + nat list" where
  "remove_devices rack_face [] units = Inr units"
| "remove_devices rack_face (d # ds) units =
     (if consumes rack_face d then
        (case position d of
           None \<Rightarrow> Inl TypeError
         | Some p \<Rightarrow>
             (case remove_units [p ..< p + type_u_height (device_type d)] units of
                Inl e \<Rightarrow> Inl e
              | Inr units' \<Rightarrow> remove_devices rack_face ds units'))
      else remove_devices rack_face ds units)"

text \<open>The filter \<^verbatim>\<open>position__gte=1\<close>; a row whose position is \<^verbatim>\<open>NULL\<close> does not pass.\<close>

definition position_gte :: "nat \<Rightarrow> device \<Rightarrow> bool" where
  "position_gte n d = (case position d of None \<Rightarrow> False | Some p \<Rightarrow> n \<le> p)"

text \<open>
  \<^verbatim>\<open>get_available_units(self, u_height=1, rack_face=None, exclude=list())\<close>. The table
  \<open>objects\<close> is passed explicitly. \<^verbatim>\<open>range\<close> returns a list (the code is Python 2).
\<close>

definition get_available_units ::
    "rack \<Rightarrow> device list \<Rightarrow> nat \<Rightarrow> face option \<Rightarrow> nat list \<Rightarrow> error + nat list" where
  "get_available_units self objects u_height rack_face exclude =
     (let devices = [d \<leftarrow> rack_devices self objects. position_gte 1 d \<and> pk d \<notin> set exclude];
          units = [1 ..< rack_u_height self + 1]
      in case remove_devices rack_face devices units of
           Inl e \<Rightarrow> Inl e
         | Inr units' \<Rightarrow>
             Inr (rev [u \<leftarrow> units'. set [u ..< u + u_height] \<subseteq> set units']))"

subsection \<open>Occupancy, stated independently of the loops\<close>

text \<open>
  Device \<open>d\<close> occupies unit \<open>v\<close> for a query on \<open>rack_face\<close>: it has a position of at least
  1, its span \<open>[position, position + height - 1]\<close> holds \<open>v\<close>, and it counts for the face:
  every device counts when \<open>rack_face\<close> is \<open>None\<close>, otherwise the devices on that face and
  the full-depth devices.
\<close>

definition occupies :: "face option \<Rightarrow> device \<Rightarrow> nat \<Rightarrow> bool" where
  "occupies rack_face d v =
     (consumes rack_face d \<and>
      (case position d of
         None \<Rightarrow> False
       | Some p \<Rightarrow> 1 \<le> p \<and> p \<le> v \<and> v < p + type_u_height (device_type d)))"

text \<open>Unit \<open>v\<close> is in the union of the spans of the rack's devices, the excluded ones apart.\<close>

definition occupied :: "rack \<Rightarrow> device list \<Rightarrow> face option \<Rightarrow> nat list \<Rightarrow> nat \<Rightarrow> bool" where
  "occupied self objects rack_face exclude v =
     (\<exists>d \<in> set (rack_devices self objects). pk d \<notin> set exclude \<and> occupies rack_face d v)"

text \<open>The units of the rack that no span covers, in ascending order.\<close>

definition free_units :: "rack \<Rightarrow> device list \<Rightarrow> face option \<Rightarrow> nat list \<Rightarrow> nat list" where
  "free_units self objects rack_face exclude =
     [u \<leftarrow> [1 ..< rack_u_height self + 1]. \<not> occupied self objects rack_face exclude u]"

section \<open>\<^verbatim>\<open>Rack.clean\<close>\<close>

text \<open>
  Python's truth test on a nullable integer, as in \<^verbatim>\<open>if self.pk:\<close> and
  \<^verbatim>\<open>if self.position and ...\<close>: \<^verbatim>\<open>None\<close> and 0 are false.
\<close>

definition truthy :: "nat option \<Rightarrow> bool" where
  "truthy x = (case x of None \<Rightarrow> False | Some n \<Rightarrow> n \<noteq> 0)"

text \<open>
  \<^verbatim>\<open>.exclude(position__isnull=True)\<close>: the rows that have a position, each with its
  position.
\<close>

definition positioned :: "device list \<Rightarrow> (nat \<times> device) list" where
  "positioned ds = concat (map (\<lambda>d. case position d of None \<Rightarrow> [] | Some p \<Rightarrow> [(p, d)]) ds)"

text \<open>
  \<^verbatim>\<open>.order_by('-position').first()\<close>: a row of greatest position, \<open>None\<close> on an empty
  result. The database leaves the order of rows of equal position open; the model takes
  the one that comes first in the table.
\<close>

fun first_by_position_desc :: "(nat \<times> device) list \<Rightarrow> (nat \<times> device) option" where
  "first_by_position_desc [] = None"
| "first_by_position_desc (x # xs) =
     (case first_by_position_desc xs of
        None \<Rightarrow> Some x
      | Some y \<Rightarrow> if fst x < fst y then Some y else Some x)"

text \<open>
  \<^verbatim>\<open>Rack.clean\<close>. \<open>self\<close> is the rack as edited, carrying the new \<^verbatim>\<open>u_height\<close>;
  \<open>objects\<close> is the stored device table. \<^verbatim>\<open>min_height\<close> is a Python integer.
\<close>

definition Rack_clean :: "rack \<Rightarrow> device list \<Rightarrow> error + unit" where
  "Rack_clean self objects =
     (if truthy (rack_pk self) then
        (case first_by_position_desc (positioned (rack_devices self objects)) of
           None \<Rightarrow> Inr ()
         | Some (p, top_device) \<Rightarrow>
             (let min_height = int p + int (type_u_height (device_type top_device)) - 1
              in if int (rack_u_height self) < min_height
                 then Inl (ValidationError ''u_height'' (RackTooShort min_height))
                 else Inr ()))
      else Inr ())"

text \<open>
  The highest unit a device occupies: its position plus the height of its type minus 1.
\<close>

definition highest_unit :: "device \<Rightarrow> int option" where
  "highest_unit d =
     (case position d of
        None \<Rightarrow> None
      | Some p \<Rightarrow> Some (int p + int (type_u_height (device_type d)) - 1))"

section \<open>\<^verbatim>\<open>Rack.units\<close> and \<^verbatim>\<open>Rack.get_rack_units\<close>\<close>

text \<open>The property \<^verbatim>\<open>units\<close>: ascending when \<^verbatim>\<open>desc_units\<close> is set, descending otherwise.\<close>

definition units :: "rack \<Rightarrow> nat list" where
  "units self =
     (if desc_units self then [1 ..< rack_u_height self + 1]
      else rev [1 ..< rack_u_height self + 1])"

text \<open>
  The decimal digits of a number, most significant first, and the text that
  \<^verbatim>\<open>'{}'.format(u)\<close> prints for it.
\<close>

fun decimal :: "nat \<Rightarrow> nat list" where
  "decimal n = (if n < 10 then [n] else decimal (n div 10) @ [n mod 10])"

declare decimal.simps [simp del]

definition string_of_nat :: "nat \<Rightarrow> string" where
  "string_of_nat n = map (\<lambda>d. char_of (d + 48)) (decimal n)"

text \<open>
  One entry of the elevation, the dictionary
  \<^verbatim>\<open>{'id': u, 'name': 'U{}'.format(u), 'face': face, 'device': None}\<close>.
\<close>

record rack_unit =
  unit_id :: nat
  unit_name :: string
  unit_face :: face
  unit_device :: "device option"

text \<open>
  The \<^verbatim>\<open>OrderedDict\<close> \<^verbatim>\<open>elevation\<close> is an association list in insertion order. The first
  loop inserts one fresh key for each unit.
\<close>

type_synonym elevation = "(nat \<times> rack_unit) list"

definition empty_unit :: "face \<Rightarrow> nat \<Rightarrow> rack_unit" where
  "empty_unit f u =
     \<lparr>unit_id = u, unit_name = ''U'' @ string_of_nat u, unit_face = f, unit_device = None\<rparr>"

definition new_elevation :: "rack \<Rightarrow> face \<Rightarrow> elevation" where
  "new_elevation self f = map (\<lambda>u. (u, empty_unit f u)) (units self)"

text \<open>
  \<^verbatim>\<open>elevation[u]['device'] = device\<close>: the lookup raises \<^verbatim>\<open>KeyError\<close> when \<open>u\<close> is not a
  key.
\<close>

fun set_device :: "nat \<Rightarrow> device \<Rightarrow> elevation \<Rightarrow> error + elevation" where
  "set_device u d [] = Inl KeyError"
| "set_device u d ((k, r) # es) =
     (if k = u then Inr ((k, r\<lparr>unit_device := Some d\<rparr>) # es)
      else (case set_device u d es of
              Inl e \<Rightarrow> Inl e
            | Inr es' \<Rightarrow> Inr ((k, r) # es')))"

text \<open>\<^verbatim>\<open>elevation.pop(u, None)\<close>: the key is dropped if it is there.\<close>

definition pop_unit :: "nat \<Rightarrow> elevation \<Rightarrow> elevation" where
  "pop_unit u es = [(k, r) \<leftarrow> es. k \<noteq> u]"

text \<open>The loop \<^verbatim>\<open>for u in range(...): elevation[u]['device'] = device\<close>.\<close>

fun set_devices :: "nat list \<Rightarrow> device \<Rightarrow> elevation \<Rightarrow> error + elevation" where
  "set_devices [] d es = Inr es"
| "set_devices (u # us) d es =
     (case set_device u d es of
        Inl e \<Rightarrow> Inl e
      | Inr es' \<Rightarrow> set_devices us d es')"

text \<open>
  The body of \<^verbatim>\<open>for device in ...\<close>, for one device, in both modes. The query only
  yields rows with a position; without one, the dictionary lookup of the collapsed mode
  raises \<^verbatim>\<open>KeyError\<close> and \<^verbatim>\<open>range\<close> raises \<^verbatim>\<open>TypeError\<close>.
\<close>

definition place_device :: "bool \<Rightarrow> device \<Rightarrow> elevation \<Rightarrow> error + elevation" where
  "place_device remove_redundant d es =
     (let h = type_u_height (device_type d) in
      if remove_redundant then
        (case position d of
           None \<Rightarrow> Inl KeyError
         | Some p \<Rightarrow>
             (case set_device p d es of
                Inl e \<Rightarrow> Inl e
              | Inr es' \<Rightarrow> Inr (fold pop_unit [p + 1 ..< p + h] es')))
      else
        (case position d of
           None \<Rightarrow> Inl TypeError
         | Some p \<Rightarrow> set_devices [p ..< p + h] d es))"

fun place_devices :: "bool \<Rightarrow> device list \<Rightarrow> elevation \<Rightarrow> error + elevation" where
  "place_devices remove_redundant [] es = Inr es"
| "place_devices remove_redundant (d # ds) es =
     (case place_device remove_redundant d es of
        Inl e \<Rightarrow> Inl e
      | Inr es' \<Rightarrow> place_devices remove_redundant ds es')"

text \<open>
  The query of \<^verbatim>\<open>get_rack_units\<close>:
  \<^verbatim>\<open>.exclude(pk=exclude).filter(rack=self, position__gt=0)\<close>
  \<^verbatim>\<open>.filter(Q(face=face) | Q(device_type__is_full_depth=True))\<close>. With \<^verbatim>\<open>exclude=None\<close> no
  row is excluded.
\<close>

definition shown_devices :: "rack \<Rightarrow> device list \<Rightarrow> face \<Rightarrow> nat option \<Rightarrow> device list" where
  "shown_devices self objects f exclude =
     [d \<leftarrow> rack_devices self objects.
        Some (pk d) \<noteq> exclude \<and>
        (case position d of None \<Rightarrow> False | Some p \<Rightarrow> 0 < p) \<and>
        (face d = Some f \<or> is_full_depth (device_type d))]"

text \<open>
  \<^verbatim>\<open>get_rack_units(self, face=RACK_FACE_FRONT, exclude=None, remove_redundant=False)\<close>.
\<close>

definition get_rack_units ::
    "rack \<Rightarrow> device list \<Rightarrow> face \<Rightarrow> nat option \<Rightarrow> bool \<Rightarrow> error + rack_unit list" where
  "get_rack_units self objects f exclude remove_redundant =
     (let elevation = new_elevation self f in
      case (if truthy (rack_pk self)
            then place_devices remove_redundant (shown_devices self objects f exclude) elevation
            else Inr elevation) of
        Inl e \<Rightarrow> Inl e
      | Inr elevation' \<Rightarrow> Inr (map snd elevation'))"

subsection \<open>The occupant of a unit, stated independently of the loops\<close>

text \<open>The units of the span of a device, \<open>[position, position + height - 1]\<close>.\<close>

definition span :: "device \<Rightarrow> nat set" where
  "span d =
     (case position d of
        None \<Rightarrow> {}
      | Some p \<Rightarrow> {p ..< p + type_u_height (device_type d)})"

text \<open>
  Of the devices whose span holds unit \<open>u\<close>, the one that comes last in the iteration
  order; \<open>None\<close> when no span holds \<open>u\<close>.
\<close>

definition occupant :: "device list \<Rightarrow> nat \<Rightarrow> device option" where
  "occupant ds u =
     (case [d \<leftarrow> ds. u \<in> span d] of
        [] \<Rightarrow> None
      | d # ds' \<Rightarrow> Some (last (d # ds')))"

text \<open>Every shown device lies inside the rack: its highest unit is at most the rack height.\<close>

definition within_rack :: "rack \<Rightarrow> device list \<Rightarrow> bool" where
  "within_rack self ds = (\<forall>d \<in> set ds. span d \<subseteq> {1 .. rack_u_height self})"

text \<open>
  The devices that \<open>get_rack_units\<close> places: those of the query, and none for a rack
  without a key.
\<close>

definition displayed :: "rack \<Rightarrow> device list \<Rightarrow> face \<Rightarrow> nat option \<Rightarrow> device list" where
  "displayed self objects f exclude =
     (if truthy (rack_pk self) then shown_devices self objects f exclude else [])"

subsection \<open>The loops as maps over the entries\<close>

text \<open>Writing the device of the entries whose key satisfies \<open>P\<close>.\<close>

definition mark :: "(nat \<Rightarrow> bool) \<Rightarrow> device \<Rightarrow> elevation \<Rightarrow> elevation" where
  "mark P d es = map (\<lambda>(k, r). (k, if P k then r\<lparr>unit_device := Some d\<rparr> else r)) es"

text \<open>Writing, on every entry, the occupant of its unit if there is one.\<close>

definition settle :: "device list \<Rightarrow> elevation \<Rightarrow> elevation" where
  "settle ds es =
     map (\<lambda>(k, r). (k, case occupant ds k of None \<Rightarrow> r | Some d \<Rightarrow> r\<lparr>unit_device := Some d\<rparr>)) es"

section \<open>\<^verbatim>\<open>Rack.get_utilization\<close>\<close>











subsection \<open>The free units of a face, counted independently of the code\<close>


section \<open>\<^verbatim>\<open>order_interfaces\<close>\<close>

text \<open>
  The four columns that \<^verbatim>\<open>order_interfaces\<close> selects are PostgreSQL expressions
  \<^verbatim>\<open>CAST(SUBSTRING(col FROM pattern) AS integer)\<close>. The patterns are built from digit
  runs \<^verbatim>\<open>[0-9]+\<close>, literal characters, one capturing group, the optional group
  \<^verbatim>\<open>(:[0-9]+)?\<close> and the anchor \<^verbatim>\<open>$\<close>.
\<close>

datatype atom = Digits | Lit char

datatype item = Plain atom | Capture "atom list" | Optional "atom list" | End

definition is_digit :: "char \<Rightarrow> bool" where
  "is_digit c = (c \<in> set ''0123456789'')"

text \<open>
  All the ways in which an atom matches a prefix of the text, each with the rest of the
  text, the longest match first: a digit run is greedy and gives back one digit at a
  time.
\<close>

fun match_atom :: "atom \<Rightarrow> string \<Rightarrow> (string \<times> string) list" where
  "match_atom (Lit c) s =
     (case s of [] \<Rightarrow> [] | x # xs \<Rightarrow> if x = c then [([x], xs)] else [])"
| "match_atom Digits s =
     map (\<lambda>n. (take n s, drop n s)) (rev [1 ..< length (takeWhile is_digit s) + 1])"

fun match_atoms :: "atom list \<Rightarrow> string \<Rightarrow> (string \<times> string) list" where
  "match_atoms [] s = [([], s)]"
| "match_atoms (a # as) s =
     concat (map (\<lambda>mr. map (\<lambda>mr'. (fst mr @ fst mr', snd mr')) (match_atoms as (snd mr)))
               (match_atom a s))"

text \<open>
  All the matches of a pattern at the start of the text, in the order of preference;
  each match is given by the text of its first capturing group (\<open>cap\<close> until a group
  has matched).
\<close>

fun match_items :: "item list \<Rightarrow> string \<Rightarrow> string option \<Rightarrow> string option list" where
  "match_items [] s cap = [cap]"
| "match_items (Plain a # items) s cap =
     concat (map (\<lambda>mr. match_items items (snd mr) cap) (match_atom a s))"
| "match_items (Capture as # items) s cap =
     concat (map (\<lambda>mr. match_items items (snd mr) (Some (fst mr))) (match_atoms as s))"
| "match_items (Optional as # items) s cap =
     concat (map (\<lambda>mr. match_items items (snd mr) cap) (match_atoms as s)) @
     match_items items s cap"
| "match_items (End # items) s cap = (if s = [] then match_items items s cap else [])"

text \<open>
  \<^verbatim>\<open>SUBSTRING(text FROM pattern)\<close>: the first capturing group of the match that starts
  leftmost, \<^verbatim>\<open>NULL\<close> (\<open>None\<close>) when the pattern matches nowhere.
\<close>

fun substring_from :: "item list \<Rightarrow> string \<Rightarrow> string option" where
  "substring_from pattern [] =
     (case match_items pattern [] None of [] \<Rightarrow> None | cap # _ \<Rightarrow> cap)"
| "substring_from pattern (c # s) =
     (case match_items pattern (c # s) None of
        [] \<Rightarrow> substring_from pattern s
      | cap # _ \<Rightarrow> cap)"

text \<open>
  \<^verbatim>\<open>CAST(... AS integer)\<close> on a digit run or \<^verbatim>\<open>NULL\<close>. A value beyond the 32-bit range
  makes the query fail.
\<close>

definition digits_value :: "string \<Rightarrow> int" where
  "digits_value ds = fold (\<lambda>c n. 10 * n + (int (of_char c) - 48)) ds 0"

definition cast_integer :: "string option \<Rightarrow> error + int option" where
  "cast_integer x =
     (case x of
        None \<Rightarrow> Inr None
      | Some ds \<Rightarrow>
          if digits_value ds \<le> 2147483647 then Inr (Some (digits_value ds)) else Inl DataError)"

text \<open>The four patterns, as the source writes them.\<close>

definition colon_digits :: item where
  "colon_digits = Optional [Lit CHR '':'', Digits]"

definition pattern_id1 :: "item list" where
  "pattern_id1 =
     [Capture [Digits], Plain (Lit CHR ''/''), Plain Digits, Plain (Lit CHR ''/''), Plain Digits,
      colon_digits, End]"

definition pattern_id2 :: "item list" where
  "pattern_id2 = [Capture [Digits], Plain (Lit CHR ''/''), Plain Digits, colon_digits, End]"

definition pattern_id3 :: "item list" where
  "pattern_id3 = [Capture [Digits], colon_digits, End]"

definition pattern_id4 :: "item list" where
  "pattern_id4 = [Plain (Lit CHR '':''), Capture [Digits], End]"

type_synonym name_key = "int option \<times> int option \<times> int option \<times> int option"

text \<open>The columns \<^verbatim>\<open>_id1\<close>, \<^verbatim>\<open>_id2\<close>, \<^verbatim>\<open>_id3\<close> and \<^verbatim>\<open>_id4\<close> of one name.\<close>

definition interface_key :: "string \<Rightarrow> error + name_key" where
  "interface_key name =
     (case cast_integer (substring_from pattern_id1 name) of
        Inl e \<Rightarrow> Inl e
      | Inr id1 \<Rightarrow>
     (case cast_integer (substring_from pattern_id2 name) of
        Inl e \<Rightarrow> Inl e
      | Inr id2 \<Rightarrow>
     (case cast_integer (substring_from pattern_id3 name) of
        Inl e \<Rightarrow> Inl e
      | Inr id3 \<Rightarrow>
     (case cast_integer (substring_from pattern_id4 name) of
        Inl e \<Rightarrow> Inl e
      | Inr id4 \<Rightarrow> Inr (id1, id2, id3, id4)))))"

text \<open>
  An ascending \<^verbatim>\<open>ORDER BY\<close> column in PostgreSQL: integers in their order, \<^verbatim>\<open>NULL\<close> after
  every integer.
\<close>

fun null_last_less :: "int option \<Rightarrow> int option \<Rightarrow> bool" where
  "null_last_less (Some a) (Some b) = (a < b)"
| "null_last_less (Some a) None = True"
| "null_last_less None b = False"

fun key_less :: "name_key \<Rightarrow> name_key \<Rightarrow> bool" where
  "key_less (a1, a2, a3, a4) (b1, b2, b3, b4) =
     (null_last_less a1 b1 \<or> a1 = b1 \<and>
       (null_last_less a2 b2 \<or> a2 = b2 \<and>
         (null_last_less a3 b3 \<or> a3 = b3 \<and> null_last_less a4 b4)))"

text \<open>
  \<^verbatim>\<open>order_by(*ordering)\<close> with \<^verbatim>\<open>ordering = primary_ordering + ('_id1', ..., '_id4')\<close>.
  The fields of \<^verbatim>\<open>primary_ordering\<close> are given by their strict order \<open>primary_less\<close> on
  the rows. SQL leaves the order of rows with equal keys open; the model keeps them in
  the order of the queryset.
\<close>

definition row_less :: "('a \<Rightarrow> 'a \<Rightarrow> bool) \<Rightarrow> 'a \<times> name_key \<Rightarrow> 'a \<times> name_key \<Rightarrow> bool" where
  "row_less primary_less x y =
     (primary_less (fst x) (fst y) \<or>
      \<not> primary_less (fst y) (fst x) \<and> key_less (snd x) (snd y))"

fun insert_row ::
    "('a \<Rightarrow> 'a \<Rightarrow> bool) \<Rightarrow> 'a \<times> name_key \<Rightarrow> ('a \<times> name_key) list \<Rightarrow> ('a \<times> name_key) list" where
  "insert_row primary_less x [] = [x]"
| "insert_row primary_less x (y # ys) =
     (if row_less primary_less y x then y # insert_row primary_less x ys else x # y # ys)"

definition order_by :: "('a \<Rightarrow> 'a \<Rightarrow> bool) \<Rightarrow> ('a \<times> name_key) list \<Rightarrow> ('a \<times> name_key) list" where
  "order_by primary_less rows = foldr (insert_row primary_less) rows []"

text \<open>The select: every row with its four columns; one failing cast fails the query.\<close>

fun select_keys :: "('a \<Rightarrow> string) \<Rightarrow> 'a list \<Rightarrow> error + ('a \<times> name_key) list" where
  "select_keys sql_col [] = Inr []"
| "select_keys sql_col (x # xs) =
     (case interface_key (sql_col x) of
        Inl e \<Rightarrow> Inl e
      | Inr k \<Rightarrow>
          (case select_keys sql_col xs of
             Inl e \<Rightarrow> Inl e
           | Inr rows \<Rightarrow> Inr ((x, k) # rows)))"

text \<open>
  \<^verbatim>\<open>order_interfaces(queryset, sql_col, primary_ordering=tuple())\<close>: \<open>sql_col\<close> reads the
  name column of a row.
\<close>

definition order_interfaces ::
    "'a list \<Rightarrow> ('a \<Rightarrow> string) \<Rightarrow> ('a \<Rightarrow> 'a \<Rightarrow> bool) \<Rightarrow> error + 'a list" where
  "order_interfaces queryset sql_col primary_less =
     (case select_keys sql_col queryset of
        Inl e \<Rightarrow> Inl e
      | Inr rows \<Rightarrow> Inr (map fst (order_by primary_less rows)))"

text \<open>A queryset of bare names, and the empty \<^verbatim>\<open>primary_ordering\<close>.\<close>

definition name_column :: "string \<Rightarrow> string" where
  "name_column name = name"

definition no_primary_ordering :: "string \<Rightarrow> string \<Rightarrow> bool" where
  "no_primary_ordering x y = False"

section \<open>\<^verbatim>\<open>Device.clean\<close>\<close>

text \<open>
  The \<^verbatim>\<open>Device\<close> object that \<^verbatim>\<open>clean\<close> and \<^verbatim>\<open>save\<close> are called on. Unlike a stored row
  it may have no key yet, and a form may have left its device type or its rack unset:
  reading \<^verbatim>\<open>self.device_type\<close> then raises \<^verbatim>\<open>DeviceType.DoesNotExist\<close>, reading
  \<^verbatim>\<open>self.rack\<close> raises \<^verbatim>\<open>Rack.DoesNotExist\<close>. An unset relation is \<open>None\<close>.
\<close>

record device_instance =
  self_pk :: "nat option"
  self_device_type :: "device_type option"
  self_rack :: "rack option"
  self_position :: "nat option"
  self_face :: "face option"

text \<open>\<^verbatim>\<open>exclude_list = [self.pk] if self.pk else []\<close>.\<close>

definition exclude_list :: "device_instance \<Rightarrow> nat list" where
  "exclude_list self =
     (case self_pk self of
        None \<Rightarrow> []
      | Some k \<Rightarrow> if k \<noteq> 0 then [k] else [])"

text \<open>\<^verbatim>\<open>rack_face = self.face if not self.device_type.is_full_depth else None\<close>.\<close>

definition effective_face :: "device_type \<Rightarrow> face option \<Rightarrow> face option" where
  "effective_face t f = (if \<not> is_full_depth t then f else None)"

text \<open>
  \<^verbatim>\<open>Device.clean\<close>. The handlers \<^verbatim>\<open>except DeviceType.DoesNotExist: pass\<close> and
  \<^verbatim>\<open>except Rack.DoesNotExist: pass\<close> end the validation without an error when the
  relation is unset. The test \<^verbatim>\<open>self.position and self.position not in available_units\<close>
  looks the position up only when it is neither \<^verbatim>\<open>None\<close> nor 0.
\<close>

definition Device_clean :: "device_instance \<Rightarrow> device list \<Rightarrow> error + unit" where
  "Device_clean self objects =
     (if truthy (self_position self) \<and> self_face self = None
      then Inl (ValidationError ''face'' FaceRequired)
      else
        (case self_device_type self of
           None \<Rightarrow> Inr ()
         | Some t \<Rightarrow>
             if is_child_device t \<and> self_face self \<noteq> None
             then Inl (ValidationError ''face'' ChildFace)
             else if is_child_device t \<and> truthy (self_position self)
             then Inl (ValidationError ''position'' ChildPosition)
             else
               (case self_rack self of
                  None \<Rightarrow> Inr ()
                | Some r \<Rightarrow>
                    (case get_available_units r objects (type_u_height t)
                            (effective_face t (self_face self)) (exclude_list self) of
                       Inl e \<Rightarrow> Inl e
                     | Inr available_units \<Rightarrow>
                         (case self_position self of
                            None \<Rightarrow> Inr ()
                          | Some p \<Rightarrow>
                              if p \<noteq> 0 \<and> p \<notin> set available_units
                              then Inl (ValidationError ''position''
                                      (PositionUnavailable p (type_u_height t)))
                              else Inr ())))))"

section \<open>\<^verbatim>\<open>DeviceType.clean\<close>\<close>

text \<open>
  \<^verbatim>\<open>Device.objects.filter(device_type=self, position__isnull=False)\<close>: the rows of this
  type that have a position, 0 included.
\<close>

definition instances :: "device_type \<Rightarrow> device list \<Rightarrow> device list" where
  "instances self objects =
     [d \<leftarrow> objects. type_pk (device_type d) = type_pk self \<and> position d \<noteq> None]"

text \<open>\<^verbatim>\<open>face_required = None if self.is_full_depth else d.face\<close>.\<close>

definition face_required :: "device_type \<Rightarrow> device \<Rightarrow> face option" where
  "face_required self d = (if is_full_depth self then None else face d)"

text \<open>
  The loop \<^verbatim>\<open>for d in Device.objects.filter(...)\<close>. The available units are computed on
  the rack of \<open>d\<close> from the stored table, for the new height, \<open>d\<close> itself excluded.
  \<^verbatim>\<open>d.position not in u_available\<close> holds for a position that is \<^verbatim>\<open>None\<close>.
\<close>

fun check_room :: "device_type \<Rightarrow> device list \<Rightarrow> device list \<Rightarrow> error + unit" where
  "check_room self objects [] = Inr ()"
| "check_room self objects (d # ds) =
     (case get_available_units (rack d) objects (type_u_height self) (face_required self d) [pk d] of
        Inl e \<Rightarrow> Inl e
      | Inr u_available \<Rightarrow>
          if (case position d of None \<Rightarrow> True | Some p \<Rightarrow> p \<notin> set u_available)
          then Inl (ValidationError ''u_height'' (InsufficientSpace (pk d) (type_u_height self)))
          else check_room self objects ds)"

text \<open>
  The checks of \<^verbatim>\<open>clean\<close> that follow the loop: templates left over after a
  declassification, and \<^verbatim>\<open>"Child device types must be 0U."\<close>.
\<close>

definition later_checks :: "device_type \<Rightarrow> error + unit" where
  "later_checks self =
     (if \<not> is_console_server self \<and> cs_port_templates self \<noteq> []
      then Inl (ValidationError ''is_console_server'' MustDeleteTemplates)
      else if \<not> is_pdu self \<and> power_outlet_templates self \<noteq> []
      then Inl (ValidationError ''is_pdu'' MustDeleteTemplates)
      else if \<not> is_network_device self \<and>
              [t \<leftarrow> interface_templates self. \<not> snd (snd t)] \<noteq> []
      then Inl (ValidationError ''is_network_device'' MustDeleteTemplates)
      else if subdevice_role self \<noteq> Some True \<and> device_bay_templates self \<noteq> []
      then Inl (ValidationError ''subdevice_role'' MustDeleteTemplates)
      else if type_u_height self \<noteq> 0 \<and> subdevice_role self = Some False
      then Inl (ValidationError ''u_height'' ChildMustBe0U)
      else Inr ())"

text \<open>\<^verbatim>\<open>DeviceType.clean\<close>; \<open>self\<close> carries the new height and the original one.\<close>

definition DeviceType_clean :: "device_type \<Rightarrow> device list \<Rightarrow> error + unit" where
  "DeviceType_clean self objects =
     (case (if type_pk self \<noteq> None \<and> original_u_height self < type_u_height self
            then check_room self objects (instances self objects)
            else Inr ()) of
        Inl e \<Rightarrow> Inl e
      | Inr _ \<Rightarrow> later_checks self)"

subsection \<open>The condition of the resize, stated on one device\<close>

text \<open>
  After the resize device \<open>d\<close> still has room: its position is one of the available
  units of its own rack for the new height, on the required face, \<open>d\<close> excluded.
\<close>

definition keeps_room :: "device_type \<Rightarrow> device list \<Rightarrow> device \<Rightarrow> bool" where
  "keeps_room self objects d =
     (case position d of
        None \<Rightarrow> False
      | Some p \<Rightarrow>
          (case get_available_units (rack d) objects (type_u_height self)
                  (face_required self d) [pk d] of
             Inl e \<Rightarrow> False
           | Inr us \<Rightarrow> p \<in> set us))"

section \<open>\<^verbatim>\<open>Device.save\<close>\<close>

text \<open>
  \<^verbatim>\<open>class DeviceBay\<close>: \<open>bay_device\<close> is the key of the device that owns the bay (the field
  \<^verbatim>\<open>device\<close>), \<open>installed_device\<close> the key of the child device in it, if any.
\<close>

record device_bay =
  bay_device :: nat
  bay_name :: string
  installed_device :: "nat option"

text \<open>
  The tables that \<^verbatim>\<open>save\<close> reads and writes. A console port, console server port, power
  port or power outlet is the key of its device and its name; an interface has a form
  factor and \<^verbatim>\<open>mgmt_only\<close> as well.
\<close>

record database =
  devices :: "device list"
  device_bays :: "device_bay list"
  console_ports :: "(nat \<times> string) list"
  console_server_ports :: "(nat \<times> string) list"
  power_ports :: "(nat \<times> string) list"
  power_outlets :: "(nat \<times> string) list"
  interfaces :: "(nat \<times> string \<times> nat \<times> bool) list"

text \<open>The key that the database gives to a new row: one that no row has.\<close>

definition fresh_pk :: "device list \<Rightarrow> nat" where
  "fresh_pk ds = Suc (fold max (map pk ds) 0)"

text \<open>
  \<^verbatim>\<open>super(Device, self).save()\<close> writes the row: over the row of the same key if there is
  one, as a new row otherwise.
\<close>

definition store_row :: "device \<Rightarrow> device list \<Rightarrow> device list" where
  "store_row row ds =
     (if pk row \<in> pk ` set ds then map (\<lambda>d. if pk d = pk row then row else d) ds
      else ds @ [row])"

text \<open>
  \<^verbatim>\<open>unique_together = ['rack', 'position', 'face']\<close>: the database refuses a row that
  agrees with another one on the three columns, none of them \<^verbatim>\<open>NULL\<close>.
\<close>

definition unique_conflict :: "device \<Rightarrow> device list \<Rightarrow> bool" where
  "unique_conflict row ds =
     (\<exists>d \<in> set ds. pk d \<noteq> pk row \<and> rack_pk (rack d) = rack_pk (rack row) \<and>
        position row \<noteq> None \<and> position d = position row \<and>
        face row \<noteq> None \<and> face d = face row)"

text \<open>
  The six \<^verbatim>\<open>bulk_create\<close> calls for a new device: one component for each template of
  the device type. A new bay is empty.
\<close>

definition create_components :: "nat \<Rightarrow> device_type \<Rightarrow> database \<Rightarrow> database" where
  "create_components k t db =
     db\<lparr>console_ports := console_ports db @ map (\<lambda>n. (k, n)) (console_port_templates t),
        console_server_ports := console_server_ports db @ map (\<lambda>n. (k, n)) (cs_port_templates t),
        power_ports := power_ports db @ map (\<lambda>n. (k, n)) (power_port_templates t),
        power_outlets := power_outlets db @ map (\<lambda>n. (k, n)) (power_outlet_templates t),
        interfaces := interfaces db @ map (\<lambda>(n, ff, m). (k, n, ff, m)) (interface_templates t),
        device_bays := device_bays db @
          map (\<lambda>n. \<lparr>bay_device = k, bay_name = n, installed_device = None\<rparr>)
            (device_bay_templates t)\<rparr>"

text \<open>
  The filter \<^verbatim>\<open>parent_bay__device=self\<close>: the device is installed in a bay that the
  device of key \<open>k\<close> owns.
\<close>

definition installed_in :: "device_bay list \<Rightarrow> nat \<Rightarrow> device \<Rightarrow> bool" where
  "installed_in bays k d =
     (\<exists>b \<in> set bays. installed_device b = Some (pk d) \<and> bay_device b = k)"

text \<open>
  The row that \<^verbatim>\<open>save\<close> writes for \<open>self\<close>: under its own key, or under a fresh one when
  it has none.
\<close>

definition row_of :: "database \<Rightarrow> device_instance \<Rightarrow> device_type \<Rightarrow> rack \<Rightarrow> device" where
  "row_of db self t r =
     \<lparr>pk = (case self_pk self of None \<Rightarrow> fresh_pk (devices db) | Some k \<Rightarrow> k),
      device_type = t, rack = r, position = self_position self, face = self_face self\<rparr>"

text \<open>
  The last statement of \<^verbatim>\<open>save\<close>,
  \<^verbatim>\<open>Device.objects.filter(parent_bay__device=self).update(rack=self.rack)\<close>: the rows
  it writes, and the test of \<^verbatim>\<open>unique_together\<close> on the rows it has written. A child
  that comes to share rack, position and face with another row makes the database
  refuse the update.
\<close>

definition move_children :: "device_bay list \<Rightarrow> nat \<Rightarrow> rack \<Rightarrow> device list \<Rightarrow> device list" where
  "move_children bays k r ds = map (\<lambda>d. if installed_in bays k d then d\<lparr>rack := r\<rparr> else d) ds"

definition update_conflict :: "device_bay list \<Rightarrow> nat \<Rightarrow> device list \<Rightarrow> bool" where
  "update_conflict bays k rows =
     (\<exists>c \<in> set rows. installed_in bays k c \<and> unique_conflict c rows)"

text \<open>
  \<^verbatim>\<open>Device.save\<close>, returning the new tables and the key of the saved device. The database
  refuses a row without device type or rack, and a write that breaks \<^verbatim>\<open>unique_together\<close>:
  that of the row of \<open>self\<close> in \<^verbatim>\<open>super(Device, self).save()\<close>, or that of a child in
  the last statement. An error stands for the exception alone; what the statements
  before it have written is not part of the result.
\<close>

definition Device_save :: "database \<Rightarrow> device_instance \<Rightarrow> error + database \<times> nat" where
  "Device_save db self =
     (let is_new = \<not> truthy (self_pk self) in
      case self_device_type self of
        None \<Rightarrow> Inl IntegrityError
      | Some t \<Rightarrow>
          (case self_rack self of
             None \<Rightarrow> Inl IntegrityError
           | Some r \<Rightarrow>
               (let row = row_of db self t r in
                if unique_conflict row (devices db) then Inl IntegrityError
                else
                  (let db1 = db\<lparr>devices := store_row row (devices db)\<rparr>;
                       db2 = (if is_new then create_components (pk row) t db1 else db1);
                       rows = move_children (device_bays db2) (pk row) r (devices db2)
                   in if update_conflict (device_bays db2) (pk row) rows
                      then Inl IntegrityError
                      else Inr (db2\<lparr>devices := rows\<rparr>, pk row)))))"

subsection \<open>The saves that the database accepts\<close>


section \<open>Example racks\<close>

definition example_type :: "nat \<Rightarrow> bool \<Rightarrow> device_type" where
  "example_type h full =
     \<lparr>type_pk = Some 1, type_u_height = h, original_u_height = h, is_full_depth = full,
      is_console_server = False, is_pdu = False, is_network_device = True,
      subdevice_role = None, console_port_templates = [], cs_port_templates = [],
      power_port_templates = [], power_outlet_templates = [], interface_templates = [],
      device_bay_templates = []\<rparr>"

definition example_rack :: "nat \<Rightarrow> rack" where
  "example_rack h = \<lparr>rack_pk = Some 1, rack_u_height = h, desc_units = False\<rparr>"

definition example_device :: "nat \<Rightarrow> rack \<Rightarrow> device_type \<Rightarrow> nat \<Rightarrow> face \<Rightarrow> device" where
  "example_device k r t p f =
     \<lparr>pk = k, device_type = t, rack = r, position = Some p, face = Some f\<rparr>"

text \<open>
  A 6U rack with a 2U front-only device at units 2 to 3 and a 1U full-depth device at
  unit 5; nothing overlaps.
\<close>

definition tidy_objects :: "device list" where
  "tidy_objects =
     [example_device 1 (example_rack 6) (example_type 2 False) 2 RACK_FACE_FRONT,
      example_device 2 (example_rack 6) (example_type 1 True) 5 RACK_FACE_REAR]"

text \<open>
  A 6U rack in which two front devices overlap: a 3U device at units 2 to 4 and a 2U
  device at units 3 to 4.
\<close>

definition overlapping_objects :: "device list" where
  "overlapping_objects =
     [example_device 1 (example_rack 6) (example_type 3 False) 2 RACK_FACE_FRONT,
      example_device 2 (example_rack 6) (example_type 2 False) 3 RACK_FACE_FRONT]"

text \<open>
  A rack with a 1U front device at unit 10 and a 10U rear device at units 5 to 14. The
  faces differ and neither device is full depth, so nothing overlaps. The rows refer to
  the rack as stored, 20U high.
\<close>

definition shrink_objects :: "device list" where
  "shrink_objects =
     [example_device 1 (example_rack 20) (example_type 1 False) 10 RACK_FACE_FRONT,
      example_device 2 (example_rack 20) (example_type 10 False) 5 RACK_FACE_REAR]"

text \<open>A 2U rack whose only device, 2U high, sits at unit 2 and so ends above the rack.\<close>

definition protruding_objects :: "device list" where
  "protruding_objects =
     [example_device 1 (example_rack 2) (example_type 2 False) 2 RACK_FACE_FRONT]"

text \<open>
  A 42U rack with a single 1U full-depth device at unit 42, and its type grown to 2U.
\<close>

definition top_objects :: "device list" where
  "top_objects =
     [example_device 1 (example_rack 42) (example_type 1 True) 42 RACK_FACE_FRONT]"

definition grown_type :: device_type where
  "grown_type = (example_type 1 True)\<lparr>type_u_height := 2\<rparr>"

text \<open>A child device type with no instance, its height raised from 0U to 1U.\<close>

definition grown_child_type :: device_type where
  "grown_child_type = (example_type 0 False)\<lparr>type_u_height := 1, subdevice_role := Some False\<rparr>"

text \<open>
  A new 1U front device for the rack of \<open>tidy_objects\<close>, placed at unit 3, which the 2U
  device at units 2 to 3 takes.
\<close>

definition new_device :: device_instance where
  "new_device =
     \<lparr>self_pk = None, self_device_type = Some (example_type 1 False),
      self_rack = Some (example_rack 6), self_position = Some 3,
      self_face = Some RACK_FACE_FRONT\<rparr>"

text \<open>
  A chassis (device 1) in rack 1 with two bays; the blade of key 2 is installed in the
  first bay but its row still names rack 2. Device 3 is unrelated.
\<close>

definition other_rack :: rack where
  "other_rack = \<lparr>rack_pk = Some 2, rack_u_height = 42, desc_units = False\<rparr>"

definition chassis_db :: database where
  "chassis_db =
     \<lparr>devices =
        [example_device 1 (example_rack 42) (example_type 4 True) 1 RACK_FACE_FRONT,
         \<lparr>pk = 2, device_type = example_type 0 False, rack = other_rack,
          position = None, face = None\<rparr>,
         example_device 3 other_rack (example_type 1 True) 7 RACK_FACE_FRONT],
      device_bays =
        [\<lparr>bay_device = 1, bay_name = ''bay1'', installed_device = Some 2\<rparr>,
         \<lparr>bay_device = 1, bay_name = ''bay2'', installed_device = None\<rparr>],
      console_ports = [], console_server_ports = [], power_ports = [], power_outlets = [],
      interfaces = []\<rparr>"

text \<open>The chassis as edited: moved up to unit 10 of its rack.\<close>

definition chassis :: device_instance where
  "chassis =
     \<lparr>self_pk = Some 1, self_device_type = Some (example_type 4 True),
      self_rack = Some (example_rack 42), self_position = Some 10,
      self_face = Some RACK_FACE_FRONT\<rparr>"

text \<open>
  The same chassis with its blade at unit 7 of the front face of rack 2, while device 3
  has unit 7 of the front face of rack 1, the rack of the chassis.
\<close>

definition clash_db :: database where
  "clash_db =
     chassis_db\<lparr>devices :=
        [example_device 1 (example_rack 42) (example_type 4 True) 1 RACK_FACE_FRONT,
         example_device 2 other_rack (example_type 1 False) 7 RACK_FACE_FRONT,
         example_device 3 (example_rack 42) (example_type 1 False) 7 RACK_FACE_FRONT]\<rparr>"





text \<open>The ten interface names of the ordering example.\<close>

definition slot_names :: "string list" where
  "slot_names =
     [''et-0/0/0'', ''et-0/0/1'', ''et-0/1/0'', ''xe-0/1/1:0'', ''xe-0/1/1:1'', ''et-0/1/2'',
      ''et-0/1/10'', ''et-1/0/0'', ''vlan1'', ''vlan10'']"


section \<open>Properties of \<^verbatim>\<open>get_available_units\<close>\<close>

lemma list_remove_eq:
  "list_remove x xs = (if x \<in> set xs then Inr (remove1 x xs) else Inl ValueError)"
  by (induction xs) auto

lemma try_remove_eq: "try_remove u ulist = Inr (remove1 u ulist)"
  by (simp add: try_remove_def list_remove_eq remove1_idem)

lemma remove_units_eq: "remove_units us ulist = Inr (fold remove1 us ulist)"
  by (induction us arbitrary: ulist) (simp_all add: try_remove_eq)

lemma fold_remove1_distinct:
  "distinct ulist \<Longrightarrow> fold remove1 us ulist = [x \<leftarrow> ulist. x \<notin> set us]"
proof (induction us arbitrary: ulist)
  case Nil
  then show ?case by simp
next
  case (Cons u us)
  have "remove1 u ulist = [x \<leftarrow> ulist. x \<noteq> u]"
    using Cons.prems by (simp add: distinct_remove1_removeAll removeAll_filter_not_eq eq_commute)
  moreover have "distinct (remove1 u ulist)"
    using Cons.prems by simp
  ultimately show ?case
    using Cons.IH [of "remove1 u ulist"] by (simp add: conj_commute)
qed

lemma remove_devices_eq:
  assumes "distinct ulist" and "\<forall>d \<in> set ds. position_gte 1 d"
  shows "remove_devices rack_face ds ulist =
           Inr [u \<leftarrow> ulist. \<not> (\<exists>d \<in> set ds. occupies rack_face d u)]"
  using assms
proof (induction ds arbitrary: ulist)
  case Nil
  then show ?case by simp
next
  case (Cons d ds)
  from Cons.prems obtain p where p: "position d = Some p" "1 \<le> p"
    by (auto simp: position_gte_def split: option.splits)
  show ?case
  proof (cases "consumes rack_face d")
    case True
    let ?span = "[p ..< p + type_u_height (device_type d)]"
    let ?ulist' = "[x \<leftarrow> ulist. x \<notin> set ?span]"
    have step: "remove_units ?span ulist = Inr ?ulist'"
      using Cons.prems(1) by (simp add: remove_units_eq fold_remove1_distinct)
    have "distinct ?ulist'"
      using Cons.prems(1) by simp
    then have rest: "remove_devices rack_face ds ?ulist' =
        Inr [u \<leftarrow> ?ulist'. \<not> (\<exists>d \<in> set ds. occupies rack_face d u)]"
      using Cons.IH [of ?ulist'] Cons.prems(2) by simp
    have occ: "occupies rack_face d u \<longleftrightarrow> u \<in> set ?span" for u
      using True p by (auto simp: occupies_def)
    show ?thesis
      using True p step rest occ by (auto intro: filter_cong)
  next
    case False
    then have "\<not> occupies rack_face d u" for u
      by (simp add: occupies_def)
    then show ?thesis
      using False Cons.IH [of ulist] Cons.prems by simp
  qed
qed

lemma occupies_position_gte: "occupies rack_face d v \<Longrightarrow> position_gte 1 d"
  by (auto simp: occupies_def position_gte_def split: option.splits)

lemma remove_devices_free_units:
  "remove_devices rack_face
       [d \<leftarrow> rack_devices self objects. position_gte 1 d \<and> pk d \<notin> set exclude]
       [1 ..< rack_u_height self + 1]
     = Inr (free_units self objects rack_face exclude)"
proof -
  let ?ds = "[d \<leftarrow> rack_devices self objects. position_gte 1 d \<and> pk d \<notin> set exclude]"
  let ?ulist = "[1 ..< rack_u_height self + 1]"
  have occ: "(\<exists>d \<in> set ?ds. occupies rack_face d u) = occupied self objects rack_face exclude u"
    for u
    by (auto simp: occupied_def occupies_def position_gte_def split: option.splits)
  have "remove_devices rack_face ?ds ?ulist =
          Inr [u \<leftarrow> ?ulist. \<not> (\<exists>d \<in> set ?ds. occupies rack_face d u)]"
    by (rule remove_devices_eq) simp_all
  then show ?thesis
    unfolding free_units_def by (simp only: occ)
qed

lemma get_available_units_eq:
  "get_available_units self objects u_height rack_face exclude =
     Inr (rev [u \<leftarrow> free_units self objects rack_face exclude.
                set [u ..< u + u_height] \<subseteq> set (free_units self objects rack_face exclude)])"
  unfolding get_available_units_def Let_def
  by (simp only: remove_devices_free_units sum.case)

lemma set_free_units:
  "set (free_units self objects rack_face exclude) =
     {u. 1 \<le> u \<and> u \<le> rack_u_height self \<and> \<not> occupied self objects rack_face exclude u}"
  by (auto simp: free_units_def)

lemma strictly_ascending_free_units:
  "sorted_wrt (<) (free_units self objects rack_face exclude)"
  unfolding free_units_def by (rule sorted_wrt_filter) (rule sorted_wrt_upt)

text \<open>
  For a device that has a face or is full depth, counting for the face \<open>None\<close> is
  counting for the front or for the rear face.
\<close>

lemma consumes_None_either_face:
  assumes "face d \<noteq> None \<or> is_full_depth (device_type d)"
  shows "consumes None d \<longleftrightarrow>
           consumes (Some RACK_FACE_FRONT) d \<or> consumes (Some RACK_FACE_REAR) d"
proof (cases "face d")
  case None
  with assms show ?thesis by (simp add: consumes_def)
next
  case (Some f)
  then show ?thesis by (cases f) (simp_all add: consumes_def)
qed

text \<open>
  Claim C1. For a required height of at least 1, \<open>get_available_units\<close> returns without
  raising, and the list it returns holds exactly the starting units \<open>u\<close> for which every
  unit of \<open>[u, u + u_height - 1]\<close> lies in \<open>[1, rack u_height]\<close> and is occupied by no device
  that counts for the queried face (excluded devices apart, full-depth devices counting
  for both faces, every positioned device counting when the face is \<open>None\<close>). The list is
  strictly descending. The statement needs no assumption on overlaps, so it holds in
  particular for every rack without overlapping placements.
\<close>

theorem get_available_units_exact:
  assumes "1 \<le> u_height"
  shows "\<exists>us. get_available_units self objects u_height rack_face exclude = Inr us \<and>
           set us = {u. 1 \<le> u \<and> u + u_height - 1 \<le> rack_u_height self \<and>
                        (\<forall>v. u \<le> v \<and> v \<le> u + u_height - 1 \<longrightarrow>
                           \<not> occupied self objects rack_face exclude v)} \<and>
           sorted_wrt (>) us"
proof -
  let ?free = "free_units self objects rack_face exclude"
  let ?us = "rev [u \<leftarrow> ?free. set [u ..< u + u_height] \<subseteq> set ?free]"
  have ret: "get_available_units self objects u_height rack_face exclude = Inr ?us"
    by (rule get_available_units_eq)
  have "set ?us = {u. 1 \<le> u \<and> u + u_height - 1 \<le> rack_u_height self \<and>
                        (\<forall>v. u \<le> v \<and> v \<le> u + u_height - 1 \<longrightarrow>
                           \<not> occupied self objects rack_face exclude v)}"
    (is "_ = ?spec")
  proof (intro equalityI subsetI)
    fix u
    assume "u \<in> set ?us"
    then have u: "u \<in> set ?free" and span: "\<And>v. u \<le> v \<Longrightarrow> v < u + u_height \<Longrightarrow> v \<in> set ?free"
      by auto
    from u have "1 \<le> u"
      by (simp add: set_free_units)
    moreover have "u + u_height - 1 \<le> rack_u_height self"
    proof -
      from assms have "u \<le> u + u_height - 1" and "u + u_height - 1 < u + u_height"
        by arith+
      then have "u + u_height - 1 \<in> set ?free"
        by (rule span)
      then show ?thesis
        by (simp add: set_free_units)
    qed
    moreover have "\<not> occupied self objects rack_face exclude v"
      if "u \<le> v \<and> v \<le> u + u_height - 1" for v
    proof -
      from that assms have "u \<le> v" and "v < u + u_height"
        by arith+
      then have "v \<in> set ?free"
        by (rule span)
      then show ?thesis
        by (simp add: set_free_units)
    qed
    ultimately show "u \<in> ?spec"
      by blast
  next
    fix u
    assume "u \<in> ?spec"
    then have lo: "1 \<le> u" and hi: "u + u_height - 1 \<le> rack_u_height self"
      and free: "\<And>v. u \<le> v \<Longrightarrow> v \<le> u + u_height - 1 \<Longrightarrow>
                   \<not> occupied self objects rack_face exclude v"
      by auto
    have "v \<in> set ?free" if "u \<le> v" "v < u + u_height" for v
    proof -
      from that have le: "v \<le> u + u_height - 1"
        by arith
      with that(1) have "\<not> occupied self objects rack_face exclude v"
        by (rule free)
      with le lo hi that(1) show ?thesis
        by (simp add: set_free_units)
    qed
    moreover from this [of u] assms have "u \<in> set ?free"
      by simp
    ultimately show "u \<in> set ?us"
      by auto
  qed
  moreover have "sorted_wrt (>) ?us"
  proof -
    have "sorted_wrt (<) [u \<leftarrow> ?free. set [u ..< u + u_height] \<subseteq> set ?free]"
      by (rule sorted_wrt_filter) (rule strictly_ascending_free_units)
    then show ?thesis
      by (simp add: sorted_wrt_rev)
  qed
  ultimately show ?thesis
    using ret by blast
qed

text \<open>
  In the 6U rack of \<open>tidy_objects\<close> the front face is taken at units 2, 3 and 5. For a
  height of 1 the theorem gives the starting units 1, 4 and 6.
\<close>

theorem get_available_units_exact_witness:
  "(1::nat) \<le> 1 \<and>
   (\<exists>us. get_available_units (example_rack 6) tidy_objects 1 (Some RACK_FACE_FRONT) [] = Inr us \<and>
         set us = {1, 4, 6} \<and> sorted_wrt (>) us)"
proof -
  have h: "(1::nat) \<le> 1"
    by simp
  have occ: "occupied (example_rack 6) tidy_objects (Some RACK_FACE_FRONT) [] v \<longleftrightarrow>
               v = 2 \<or> v = 3 \<or> v = 5" for v
    by (auto simp: occupied_def occupies_def consumes_def rack_devices_def tidy_objects_def
        example_rack_def example_type_def example_device_def)
  have single: "(\<forall>v. u \<le> v \<and> v \<le> u + 1 - 1 \<longrightarrow> Q v) \<longleftrightarrow> Q u" for u :: nat and Q
    by (auto simp: order_antisym)
  have height: "rack_u_height (example_rack 6) = 6"
    by (simp add: example_rack_def)
  have "{u. 1 \<le> u \<and> u + 1 - 1 \<le> rack_u_height (example_rack 6) \<and>
            (\<forall>v. u \<le> v \<and> v \<le> u + 1 - 1 \<longrightarrow>
               \<not> occupied (example_rack 6) tidy_objects (Some RACK_FACE_FRONT) [] v)}
        = {1, 4, 6::nat}"
    unfolding single occ height by auto
  with get_available_units_exact [OF h, of "example_rack 6" tidy_objects "Some RACK_FACE_FRONT" "[]"]
  show ?thesis
    by simp
qed

text \<open>
  Claim C9. \<open>get_available_units\<close> returns on every table of devices, overlapping
  placements included, for every required height: it never yields an error. Removing a
  unit that an earlier span has already removed raises \<^verbatim>\<open>ValueError\<close> inside
  \<open>list_remove\<close>, and the handler leaves the list as it is. The result is therefore the
  one computed from the union of the spans: the units of the rack that no span covers
  (\<open>free_units\<close>), filtered for those that start a free window, highest first.
\<close>

theorem get_available_units_total:
  "get_available_units self objects u_height rack_face exclude =
     Inr (rev [u \<leftarrow> free_units self objects rack_face exclude.
                \<forall>v \<in> set [u ..< u + u_height].
                   v \<in> set (free_units self objects rack_face exclude)]) \<and>
   (u \<notin> set ulist \<longrightarrow>
      list_remove u ulist = Inl ValueError \<and> try_remove u ulist = Inr ulist)"
proof -
  have "(set [u ..< u + u_height] \<subseteq> set (free_units self objects rack_face exclude)) =
          (\<forall>v \<in> set [u ..< u + u_height]. v \<in> set (free_units self objects rack_face exclude))"
    for u
    by (rule subset_eq)
  then have "get_available_units self objects u_height rack_face exclude =
     Inr (rev [u \<leftarrow> free_units self objects rack_face exclude.
                \<forall>v \<in> set [u ..< u + u_height].
                   v \<in> set (free_units self objects rack_face exclude)])"
    by (simp only: get_available_units_eq)
  moreover have "u \<notin> set ulist \<longrightarrow>
      list_remove u ulist = Inl ValueError \<and> try_remove u ulist = Inr ulist"
    by (simp add: list_remove_eq try_remove_eq remove1_idem)
  ultimately show ?thesis
    by (rule conjI)
qed

text \<open>
  In \<open>overlapping_objects\<close> units 3 and 4 are covered twice. The second covering finds them
  gone from the list; the call still returns, with the windows of height 2 that avoid
  units 2 to 4.
\<close>

theorem get_available_units_total_witness:
  "get_available_units (example_rack 6) overlapping_objects 2 (Some RACK_FACE_FRONT) [] = Inr [5] \<and>
   list_remove 3 [1, 5, 6] = Inl ValueError \<and> try_remove 3 [1, 5, 6] = Inr [1, 5, 6]"
proof -
  have free: "free_units (example_rack 6) overlapping_objects (Some RACK_FACE_FRONT) [] = [1, 5, 6]"
    by code_simp
  have "(3::nat) \<notin> set [1, 5, 6]"
    by simp
  with get_available_units_total
    [of "example_rack 6" overlapping_objects 2 "Some RACK_FACE_FRONT" "[]" 3 "[1, 5, 6]"]
  show ?thesis
    unfolding free by (simp add: upt_rec)
qed

section \<open>\<^verbatim>\<open>Rack.clean\<close> on a rack made too short\<close>

text \<open>
  Claim C2 says that a resize fails whenever some installed device ends above the new
  height. \<open>Rack_clean\<close> looks at one device only, a device of greatest position. In
  \<open>shrink_objects\<close> that is the 1U device at unit 10, so a resize of the rack to 12U
  passes, although the 10U device at unit 5 ends at unit 14.
\<close>

theorem Rack_clean_accepts_too_short:
  "Rack_clean (example_rack 12) shrink_objects = Inr () \<and>
   map highest_unit (rack_devices (example_rack 12) shrink_objects) = [Some 10, Some 14]"
  by (simp add: Rack_clean_def truthy_def rack_devices_def positioned_def highest_unit_def
      shrink_objects_def example_rack_def example_type_def example_device_def)

section \<open>Properties of \<^verbatim>\<open>get_rack_units\<close>\<close>

lemma set_units: "set (units self) = {1 .. rack_u_height self}"
  by (auto simp: units_def)

lemma distinct_units: "distinct (units self)"
  by (simp add: units_def)

lemma length_units: "length (units self) = rack_u_height self"
  by (simp add: units_def)

lemma map_fst_mark: "map fst (mark P d es) = map fst es"
  by (induction es) (auto simp: mark_def)

lemma mark_none: "\<forall>k \<in> fst ` set es. \<not> P k \<Longrightarrow> mark P d es = es"
  by (induction es) (auto simp: mark_def)

lemma set_device_missing: "u \<notin> fst ` set es \<Longrightarrow> set_device u d es = Inl KeyError"
  by (induction es) auto

lemma set_device_present:
  "distinct (map fst es) \<Longrightarrow> u \<in> fst ` set es \<Longrightarrow> set_device u d es = Inr (mark (\<lambda>k. k = u) d es)"
proof (induction es)
  case Nil
  then show ?case by simp
next
  case (Cons e es)
  obtain k r where e: "e = (k, r)"
    by (cases e)
  show ?case
  proof (cases "k = u")
    case True
    with Cons.prems e have "\<forall>k' \<in> fst ` set es. \<not> k' = u"
      by auto
    then have "mark (\<lambda>k. k = u) d es = es"
      by (rule mark_none)
    with True e show ?thesis
      by (simp add: mark_def)
  next
    case False
    with Cons e show ?thesis
      by (auto simp: mark_def)
  qed
qed

lemma mark_mark:
  "mark Q d (mark P d es) = mark (\<lambda>k. P k \<or> Q k) d es"
  by (induction es) (auto simp: mark_def)

lemma set_devices_present:
  "distinct (map fst es) \<Longrightarrow> set us \<subseteq> fst ` set es \<Longrightarrow>
     set_devices us d es = Inr (mark (\<lambda>k. k \<in> set us) d es)"
proof (induction us arbitrary: es)
  case Nil
  then show ?case
    by (simp add: mark_none)
next
  case (Cons u us)
  let ?es' = "mark (\<lambda>k. k = u) d es"
  have first: "set_device u d es = Inr ?es'"
    using Cons.prems by (simp add: set_device_present)
  have keys: "map fst ?es' = map fst es"
    by (rule map_fst_mark)
  have "fst ` set ?es' = fst ` set es"
    using keys by (metis set_map)
  with Cons.prems keys have "set_devices us d ?es' = Inr (mark (\<lambda>k. k \<in> set us) d ?es')"
    by (intro Cons.IH) simp_all
  with first show ?case
    by (simp add: mark_mark disj_commute)
qed

lemma map_fst_settle: "map fst (settle ds es) = map fst es"
  by (induction es) (auto simp: settle_def)

lemma occupant_Nil: "occupant [] u = None"
  by (simp add: occupant_def)

lemma occupant_Cons:
  "occupant (d # ds) u =
     (case occupant ds u of
        Some x \<Rightarrow> Some x
      | None \<Rightarrow> if u \<in> span d then Some d else None)"
  by (auto simp: occupant_def split: list.splits)

lemma settle_mark: "settle ds (mark (\<lambda>k. k \<in> span d) d es) = settle (d # ds) es"
  by (induction es) (auto simp: settle_def mark_def occupant_Cons split: option.splits)

lemma place_devices_settle:
  assumes "distinct (map fst es)"
    and "\<forall>d \<in> set ds. position d \<noteq> None \<and> span d \<subseteq> fst ` set es"
  shows "place_devices False ds es = Inr (settle ds es)"
  using assms
proof (induction ds arbitrary: es)
  case Nil
  have "settle [] es = es"
    by (induction es) (auto simp: settle_def occupant_Nil)
  then show ?case
    by simp
next
  case (Cons d ds)
  from Cons.prems obtain p where p: "position d = Some p"
    by auto
  let ?us = "[p ..< p + type_u_height (device_type d)]"
  have sp: "span d = set ?us"
    using p by (simp add: span_def)
  let ?es' = "mark (\<lambda>k. k \<in> span d) d es"
  have "set_devices ?us d es = Inr (mark (\<lambda>k. k \<in> set ?us) d es)"
    using Cons.prems sp by (intro set_devices_present) auto
  then have one: "place_device False d es = Inr ?es'"
    using p sp by (simp add: place_device_def)
  have keys: "map fst ?es' = map fst es"
    by (rule map_fst_mark)
  then have "fst ` set ?es' = fst ` set es"
    by (metis set_map)
  with Cons.prems keys have "place_devices False ds ?es' = Inr (settle ds ?es')"
    by (intro Cons.IH) simp_all
  with one show ?case
    by (simp add: settle_mark)
qed

lemma shown_devices_position: "d \<in> set (shown_devices self objects f exclude) \<Longrightarrow> position d \<noteq> None"
  by (auto simp: shown_devices_def split: option.splits)

lemma get_rack_units_settle:
  assumes "within_rack self (shown_devices self objects f exclude)"
  shows "get_rack_units self objects f exclude False =
           Inr (map (\<lambda>u. (empty_unit f u)\<lparr>unit_device := occupant (displayed self objects f exclude) u\<rparr>)
                  (units self))"
proof -
  let ?es = "new_elevation self f"
  let ?ds = "displayed self objects f exclude"
  have keys: "map fst ?es = units self"
    by (simp add: new_elevation_def comp_def)
  then have dist: "distinct (map fst ?es)"
    by (simp add: distinct_units)
  have dom: "fst ` set ?es = {1 .. rack_u_height self}"
    using keys by (metis set_map set_units)
  have "\<forall>d \<in> set ?ds. position d \<noteq> None \<and> span d \<subseteq> fst ` set ?es"
    using assms shown_devices_position [of _ self objects f exclude]
    by (auto simp: displayed_def within_rack_def dom)
  with dist have placed: "place_devices False ?ds ?es = Inr (settle ?ds ?es)"
    by (rule place_devices_settle)
  have ret: "get_rack_units self objects f exclude False = Inr (map snd (settle ?ds ?es))"
  proof (cases "truthy (rack_pk self)")
    case True
    with placed show ?thesis
      by (simp add: get_rack_units_def displayed_def)
  next
    case False
    then have "settle ?ds ?es = ?es"
      by (simp add: displayed_def settle_def occupant_Nil case_prod_unfold)
    with False show ?thesis
      by (simp add: get_rack_units_def)
  qed
  have "map snd (settle ?ds ?es) =
          map (\<lambda>u. (empty_unit f u)\<lparr>unit_device := occupant ?ds u\<rparr>) (units self)"
    by (auto simp: settle_def new_elevation_def empty_unit_def split: option.splits)
  with ret show ?thesis
    by simp
qed

lemma occupant_only:
  assumes "d \<in> set ds" and "u \<in> span d" and "\<forall>d' \<in> set ds. u \<in> span d' \<longrightarrow> d' = d"
  shows "occupant ds u = Some d"
proof -
  have mem: "d \<in> set [d' \<leftarrow> ds. u \<in> span d']"
    using assms(1,2) by simp
  then obtain x xs where xs: "[d' \<leftarrow> ds. u \<in> span d'] = x # xs"
    by (cases "[d' \<leftarrow> ds. u \<in> span d']") auto
  have "last (x # xs) \<in> set (x # xs)"
    by (rule last_in_set) simp
  then have "last (x # xs) \<in> set [d' \<leftarrow> ds. u \<in> span d']"
    by (simp only: xs)
  with assms(3) have "last (x # xs) = d"
    by auto
  with xs show ?thesis
    by (simp add: occupant_def)
qed

text \<open>
  Claim C3 says that the elevation never raises, whatever the occupancy, in both modes.
  In the collapsed mode of \<open>get_rack_units\<close> the first device of \<open>overlapping_objects\<close>,
  at units 2 to 4, pops units 3 and 4 from the dictionary; the second device has
  position 3, and the lookup \<^verbatim>\<open>elevation[device.position]\<close> raises \<^verbatim>\<open>KeyError\<close>. The
  other mode renders the same table, the later device winning on units 3 and 4.
\<close>

theorem get_rack_units_collapsed_overlap_raises:
  "get_rack_units (example_rack 6) overlapping_objects RACK_FACE_FRONT None True = Inl KeyError \<and>
   map (map_option pk \<circ> unit_device)
     (projr (get_rack_units (example_rack 6) overlapping_objects RACK_FACE_FRONT None False))
     = [None, None, Some 2, Some 2, Some 1, None]"
  by (simp add: get_rack_units_def new_elevation_def units_def shown_devices_def rack_devices_def
      place_device_def pop_unit_def truthy_def empty_unit_def overlapping_objects_def
      example_rack_def example_type_def example_device_def upt_rec)

text \<open>
  Inside the rack the other mode is total. When every device of the query lies inside
  the rack, the call with \<^verbatim>\<open>remove_redundant=False\<close> returns, on either face, a list of
  exactly \<^verbatim>\<open>u_height\<close> entries: one for each unit, in the order of \<open>units\<close>, each
  carrying the queried face and the occupant of its unit. A device that is alone on a
  unit of its span is the device of that unit's entry, so a device of several units
  appears on each of them.
\<close>

theorem get_rack_units_length:
  assumes "within_rack self (shown_devices self objects f exclude)"
  shows "\<exists>us. get_rack_units self objects f exclude False = Inr us \<and>
           length us = rack_u_height self \<and>
           map unit_id us = units self \<and>
           set (units self) = {1 .. rack_u_height self} \<and>
           (\<forall>r \<in> set us. unit_face r = f \<and>
                unit_device r = occupant (displayed self objects f exclude) (unit_id r)) \<and>
           (\<forall>d \<in> set (displayed self objects f exclude). \<forall>u \<in> span d.
                (\<forall>d' \<in> set (displayed self objects f exclude). u \<in> span d' \<longrightarrow> d' = d) \<longrightarrow>
                (\<exists>r \<in> set us. unit_id r = u \<and> unit_device r = Some d))"
proof -
  let ?ds = "displayed self objects f exclude"
  let ?us = "map (\<lambda>u. (empty_unit f u)\<lparr>unit_device := occupant ?ds u\<rparr>) (units self)"
  have ret: "get_rack_units self objects f exclude False = Inr ?us"
    using assms by (rule get_rack_units_settle)
  have len: "length ?us = rack_u_height self"
    by (simp add: length_units)
  have ids: "map unit_id ?us = units self"
    by (simp add: comp_def empty_unit_def)
  have entries: "\<forall>r \<in> set ?us. unit_face r = f \<and> unit_device r = occupant ?ds (unit_id r)"
    by (auto simp: empty_unit_def)
  have repeated: "\<exists>r \<in> set ?us. unit_id r = u \<and> unit_device r = Some d"
    if d: "d \<in> set ?ds" and u: "u \<in> span d"
      and only: "\<forall>d' \<in> set ?ds. u \<in> span d' \<longrightarrow> d' = d" for d u
  proof -
    have "d \<in> set (shown_devices self objects f exclude)"
      using d by (auto simp: displayed_def split: if_splits)
    with assms have "span d \<subseteq> {1 .. rack_u_height self}"
      unfolding within_rack_def by (rule bspec)
    with u have "u \<in> set (units self)"
      unfolding set_units by (rule subsetD [rotated])
    moreover have "occupant ?ds u = Some d"
      using d u only by (rule occupant_only)
    ultimately show ?thesis
      by (auto simp: empty_unit_def intro!: bexI [of _ "(empty_unit f u)\<lparr>unit_device := Some d\<rparr>"])
  qed
  show ?thesis
    using ret len ids entries repeated set_units [of self] by blast
qed

text \<open>
  On the front face of \<open>tidy_objects\<close> both devices are shown, the second one because
  it is full depth, and both lie inside the 6U rack.
\<close>

theorem get_rack_units_length_witness:
  "within_rack (example_rack 6) (shown_devices (example_rack 6) tidy_objects RACK_FACE_FRONT None) \<and>
   (\<exists>us. get_rack_units (example_rack 6) tidy_objects RACK_FACE_FRONT None False = Inr us \<and>
         length us = 6 \<and> map unit_id us = [6, 5, 4, 3, 2, 1])"
proof -
  have w: "within_rack (example_rack 6)
             (shown_devices (example_rack 6) tidy_objects RACK_FACE_FRONT None)"
    by (auto simp: within_rack_def shown_devices_def rack_devices_def span_def tidy_objects_def
        example_rack_def example_type_def example_device_def)
  have h: "rack_u_height (example_rack 6) = 6"
    by (simp add: example_rack_def)
  have u: "units (example_rack 6) = [6, 5, 4, 3, 2, 1]"
    by (simp add: units_def example_rack_def upt_rec)
  from get_rack_units_length [OF w] obtain us where
    "get_rack_units (example_rack 6) tidy_objects RACK_FACE_FRONT None False = Inr us"
    and "length us = 6" and "map unit_id us = [6, 5, 4, 3, 2, 1]"
    unfolding h u by (elim exE conjE)
  with w show ?thesis
    by (intro conjI exI)
qed

text \<open>
  Claim C5 says that for every rack the elevation with \<^verbatim>\<open>remove_redundant=False\<close> has
  exactly \<^verbatim>\<open>u_height\<close> entries. On a device that ends above the rack the call does not
  return: in the 2U rack of \<open>protruding_objects\<close> the loop writes unit 2 and then looks
  up unit 3, which is no key of the dictionary, and \<^verbatim>\<open>elevation[u]\<close> raises \<^verbatim>\<open>KeyError\<close>.
  The collapsed mode renders the same rack, since \<^verbatim>\<open>elevation.pop(u, None)\<close> accepts a
  unit that is not there. Such a rack arises from validated edits: \<open>Rack_clean\<close> accepts
  the resize of the rack of \<open>shrink_objects\<close> to 12U, and the rear elevation of that rack
  then raises as well.
\<close>

theorem get_rack_units_protruding_raises:
  "get_rack_units (example_rack 2) protruding_objects RACK_FACE_FRONT None False = Inl KeyError \<and>
   map unit_id
     (projr (get_rack_units (example_rack 2) protruding_objects RACK_FACE_FRONT None True))
     = [2, 1] \<and>
   map (map_option pk \<circ> unit_device)
     (projr (get_rack_units (example_rack 2) protruding_objects RACK_FACE_FRONT None True))
     = [Some 1, None] \<and>
   Rack_clean (example_rack 12) shrink_objects = Inr () \<and>
   get_rack_units (example_rack 12) shrink_objects RACK_FACE_REAR None False = Inl KeyError"
  by (simp add: get_rack_units_def new_elevation_def units_def shown_devices_def rack_devices_def
      place_device_def pop_unit_def truthy_def empty_unit_def protruding_objects_def
      shrink_objects_def Rack_clean_def positioned_def
      example_rack_def example_type_def example_device_def upt_rec)

section \<open>Properties of \<^verbatim>\<open>get_utilization\<close>\<close>

subsection \<open>Rounding to the nearest double\<close>






subsection \<open>The count of free units\<close>




subsection \<open>The percentage and its two roundings\<close>














section \<open>\<^verbatim>\<open>order_interfaces\<close> on the example names\<close>

text \<open>
  Claim C6 says that \<^verbatim>\<open>vlan10, vlan1, vlan2\<close> come out in the lexical order
  \<^verbatim>\<open>vlan1, vlan10, vlan2\<close>. They do not: this is not the result of \<open>order_interfaces\<close>.
\<close>

theorem order_interfaces_vlan_not_lexical:
  "order_interfaces [''vlan10'', ''vlan1'', ''vlan2''] name_column no_primary_ordering
     \<noteq> Inr [''vlan1'', ''vlan10'', ''vlan2'']"
  by code_simp

text \<open>
  Claim C6, amended. The ten names of the example, sorted by the four columns, come out
  in exactly the order of the claim, from that order and from its reverse. The pattern
  of \<^verbatim>\<open>_id3\<close> has no slash: it matches the digit run at the end of \<^verbatim>\<open>vlan10\<close>, so the
  \<^verbatim>\<open>vlan\<close> names have the key \<open>(NULL, NULL, n, NULL)\<close> and \<^verbatim>\<open>vlan10, vlan1, vlan2\<close> come
  out in the numeric order \<^verbatim>\<open>vlan1, vlan2, vlan10\<close>.
\<close>

theorem order_interfaces_examples:
  "order_interfaces slot_names name_column no_primary_ordering = Inr slot_names \<and>
   order_interfaces (rev slot_names) name_column no_primary_ordering = Inr slot_names \<and>
   interface_key ''xe-0/1/1:0'' = Inr (Some 0, Some 1, Some 1, Some 0) \<and>
   interface_key ''et-0/1/10'' = Inr (Some 0, Some 1, Some 10, None) \<and>
   interface_key ''vlan10'' = Inr (None, None, Some 10, None) \<and>
   order_interfaces [''vlan10'', ''vlan1'', ''vlan2''] name_column no_primary_ordering
     = Inr [''vlan1'', ''vlan2'', ''vlan10'']"
  by code_simp

section \<open>Properties of \<^verbatim>\<open>Device.clean\<close>\<close>

text \<open>
  Claim C7. Take a device that has a device type \<open>t\<close> and a rack \<open>r\<close>; a position counts
  as set when it is neither \<^verbatim>\<open>None\<close> nor 0, as the source tests it. Then
  \<^item> a position set without a face fails on the field \<^verbatim>\<open>face\<close>;
  \<^item> a child device type with a face or a position set fails, on one of these two fields;
  \<^item> in every other case the validation either succeeds or fails on the field
    \<^verbatim>\<open>position\<close>, and it succeeds exactly when the position is not set or is one of the
    units that \<open>get_available_units\<close> returns for the height of \<open>t\<close>,
    the effective face (\<open>None\<close> for a full-depth type, the face of the device otherwise)
    and the device's own key excluded.
\<close>

theorem Device_clean_placement:
  assumes "self_device_type self = Some t" and "self_rack self = Some r"
  shows "(truthy (self_position self) \<and> self_face self = None \<longrightarrow>
            Device_clean self objects = Inl (ValidationError ''face'' FaceRequired)) \<and>
         (is_child_device t \<and> (truthy (self_position self) \<or> self_face self \<noteq> None) \<longrightarrow>
            (\<exists>m. Device_clean self objects = Inl (ValidationError ''face'' m) \<or>
                  Device_clean self objects = Inl (ValidationError ''position'' m))) \<and>
         (\<not> (truthy (self_position self) \<and> self_face self = None) \<and>
          \<not> (is_child_device t \<and> (truthy (self_position self) \<or> self_face self \<noteq> None)) \<longrightarrow>
            (Device_clean self objects = Inr () \<or>
             (\<exists>m. Device_clean self objects = Inl (ValidationError ''position'' m))) \<and>
            (Device_clean self objects = Inr () \<longleftrightarrow>
               \<not> truthy (self_position self) \<or>
               (\<exists>p us. self_position self = Some p \<and>
                  get_available_units r objects (type_u_height t)
                    (if is_full_depth t then None else self_face self)
                    (case self_pk self of None \<Rightarrow> [] | Some k \<Rightarrow> if k \<noteq> 0 then [k] else []) = Inr us \<and>
                  p \<in> set us)))"
proof -
  obtain us where us:
    "get_available_units r objects (type_u_height t)
        (effective_face t (self_face self)) (exclude_list self) = Inr us"
    using get_available_units_eq by blast
  have eff: "effective_face t (self_face self) = (if is_full_depth t then None else self_face self)"
    by (simp add: effective_face_def)
  have exc: "exclude_list self = (case self_pk self of None \<Rightarrow> [] | Some k \<Rightarrow> if k \<noteq> 0 then [k] else [])"
    by (simp add: exclude_list_def)
  have first: "truthy (self_position self) \<and> self_face self = None \<longrightarrow>
            Device_clean self objects = Inl (ValidationError ''face'' FaceRequired)"
    by (simp add: Device_clean_def)
  have child: "is_child_device t \<and> (truthy (self_position self) \<or> self_face self \<noteq> None) \<longrightarrow>
            (\<exists>m. Device_clean self objects = Inl (ValidationError ''face'' m) \<or>
                  Device_clean self objects = Inl (ValidationError ''position'' m))"
    using assms by (auto simp: Device_clean_def)
  have rest: "\<not> (truthy (self_position self) \<and> self_face self = None) \<and>
          \<not> (is_child_device t \<and> (truthy (self_position self) \<or> self_face self \<noteq> None)) \<longrightarrow>
            (Device_clean self objects = Inr () \<or>
             (\<exists>m. Device_clean self objects = Inl (ValidationError ''position'' m))) \<and>
            (Device_clean self objects = Inr () \<longleftrightarrow>
               \<not> truthy (self_position self) \<or>
               (\<exists>p us'. self_position self = Some p \<and>
                  get_available_units r objects (type_u_height t)
                    (effective_face t (self_face self)) (exclude_list self) = Inr us' \<and>
                  p \<in> set us'))"
    using assms us
    by (auto simp: Device_clean_def truthy_def split: option.splits)
  from first child rest show ?thesis
    unfolding eff exc by (intro conjI)
qed

text \<open>
  \<open>new_device\<close> asks for unit 3 of the front face, which is taken: the third part of the
  theorem makes the validation fail.
\<close>

theorem Device_clean_placement_witness:
  "self_device_type new_device = Some (example_type 1 False) \<and>
   self_rack new_device = Some (example_rack 6) \<and>
   get_available_units (example_rack 6) tidy_objects 1 (Some RACK_FACE_FRONT) [] = Inr [6, 4, 1] \<and>
   Device_clean new_device tidy_objects \<noteq> Inr ()"
proof -
  have t: "self_device_type new_device = Some (example_type 1 False)"
    and r: "self_rack new_device = Some (example_rack 6)"
    by (simp_all add: new_device_def)
  have av: "get_available_units (example_rack 6) tidy_objects 1 (Some RACK_FACE_FRONT) [] = Inr [6, 4, 1]"
    by code_simp
  have facts: "truthy (self_position new_device)" "self_face new_device = Some RACK_FACE_FRONT"
    "\<not> is_child_device (example_type 1 False)" "\<not> is_full_depth (example_type 1 False)"
    "type_u_height (example_type 1 False) = 1" "self_pk new_device = None"
    "self_position new_device = Some 3"
    by (simp_all add: new_device_def truthy_def is_child_device_def example_type_def)
  from Device_clean_placement [OF t r, of tidy_objects] facts av
  have "Device_clean new_device tidy_objects \<noteq> Inr ()"
    by simp
  with t r av show ?thesis
    by (intro conjI)
qed

section \<open>Properties of \<^verbatim>\<open>DeviceType.clean\<close>\<close>

lemma check_room_find:
  "check_room self objects ds =
     (case find (\<lambda>d. \<not> keeps_room self objects d) ds of
        None \<Rightarrow> Inr ()
      | Some d \<Rightarrow> Inl (ValidationError ''u_height'' (InsufficientSpace (pk d) (type_u_height self))))"
proof (induction ds)
  case Nil
  then show ?case by simp
next
  case (Cons d ds)
  obtain us where us:
    "get_available_units (rack d) objects (type_u_height self) (face_required self d) [pk d] = Inr us"
    using get_available_units_eq by blast
  then have "keeps_room self objects d \<longleftrightarrow>
      \<not> (case position d of None \<Rightarrow> True | Some p \<Rightarrow> p \<notin> set us)"
    by (simp add: keeps_room_def split: option.splits)
  with us Cons.IH show ?case
    by simp
qed

lemma later_checks_not_space:
  "later_checks self \<noteq> Inl (ValidationError ''u_height'' (InsufficientSpace k h))"
  by (simp add: later_checks_def)

text \<open>
  Claim C8 as stated, with "fails if and only if", fails on the checks that follow the
  loop: raising a child device type from 0U to 1U fails with "Child device types must be
  0U" although the type has no instance at all.
\<close>

theorem DeviceType_clean_child_growth_fails:
  "DeviceType_clean grown_child_type [] = Inl (ValidationError ''u_height'' ChildMustBe0U) \<and>
   original_u_height grown_child_type < type_u_height grown_child_type \<and>
   instances grown_child_type [] = []"
  by (simp add: DeviceType_clean_def later_checks_def instances_def grown_child_type_def
      example_type_def)

text \<open>
  Claim C8, amended. When the height of a stored device type is raised, \<open>DeviceType_clean\<close>
  fails with the insufficient-space error on \<^verbatim>\<open>u_height\<close> exactly when some device of
  the type that has a position does not keep room: its position is not among the
  available units of its own rack for the new height, the required face and the device
  itself excluded. When every such device keeps room, the outcome is that of the later
  checks alone, which do not look at the devices.
\<close>

theorem DeviceType_clean_growth:
  assumes "type_pk self \<noteq> None" and "original_u_height self < type_u_height self"
  shows "((\<exists>k. DeviceType_clean self objects =
                Inl (ValidationError ''u_height'' (InsufficientSpace k (type_u_height self)))) \<longleftrightarrow>
          (\<exists>d \<in> set (instances self objects). \<not> keeps_room self objects d)) \<and>
         ((\<forall>d \<in> set (instances self objects). keeps_room self objects d) \<longrightarrow>
            DeviceType_clean self objects = later_checks self)"
proof (cases "find (\<lambda>d. \<not> keeps_room self objects d) (instances self objects)")
  case None
  then have all: "\<forall>d \<in> set (instances self objects). keeps_room self objects d"
    by (simp add: find_None_iff)
  from None assms have "DeviceType_clean self objects = later_checks self"
    by (simp add: DeviceType_clean_def check_room_find)
  with all show ?thesis
    using later_checks_not_space [of self] by auto
next
  case (Some d)
  then have d: "d \<in> set (instances self objects)" "\<not> keeps_room self objects d"
    by (auto simp: find_Some_iff)
  from Some assms have "DeviceType_clean self objects =
      Inl (ValidationError ''u_height'' (InsufficientSpace (pk d) (type_u_height self)))"
    by (simp add: DeviceType_clean_def check_room_find)
  with d show ?thesis
    by auto
qed

text \<open>
  The scenario of the claim: the device at unit 42 of a 42U rack blocks the growth of its
  type from 1U to 2U, since a 2U device at unit 42 would need unit 43.
\<close>

theorem DeviceType_clean_growth_witness:
  "type_pk grown_type \<noteq> None \<and> original_u_height grown_type < type_u_height grown_type \<and>
   (\<exists>k. DeviceType_clean grown_type top_objects =
           Inl (ValidationError ''u_height'' (InsufficientSpace k 2)))"
proof -
  have pk: "type_pk grown_type \<noteq> None"
    and grow: "original_u_height grown_type < type_u_height grown_type"
    and h: "type_u_height grown_type = 2"
    by (simp_all add: grown_type_def example_type_def)
  have inst: "instances grown_type top_objects = top_objects"
    by (simp add: instances_def grown_type_def top_objects_def example_type_def example_device_def)
  have "\<not> keeps_room grown_type top_objects (hd top_objects)"
    by code_simp
  moreover have "hd top_objects \<in> set top_objects"
    by (simp add: top_objects_def)
  ultimately have "\<exists>d \<in> set (instances grown_type top_objects). \<not> keeps_room grown_type top_objects d"
    unfolding inst by blast
  with DeviceType_clean_growth [OF pk grow, of top_objects]
  have "\<exists>k. DeviceType_clean grown_type top_objects =
           Inl (ValidationError ''u_height'' (InsufficientSpace k (type_u_height grown_type)))"
    by blast
  with pk grow show ?thesis
    unfolding h by (intro conjI)
qed

section \<open>Properties of \<^verbatim>\<open>Device.save\<close>\<close>

lemma installed_in_rack_update [simp]: "installed_in bays k (d\<lparr>rack := r\<rparr>) = installed_in bays k d"
  by (simp add: installed_in_def)








text \<open>
  The update of the children is under \<^verbatim>\<open>unique_together\<close> too: in \<open>clash_db\<close> the blade
  would come to unit 7 of the front face of rack 1, which device 3 has, and the save of
  the chassis raises.
\<close>

lemma Device_save_update_refused: "Device_save clash_db chassis = Inl IntegrityError"
  by code_simp




end
